theory Spec2Isabelle
  imports Main "HOL-Library.Sublist" "HOL-Library.Word"
begin

section \<open>The X side of the program: windows, events, the observable trace\<close>

text \<open>
  \<^verbatim>\<open>exul/utilities.py\<close> talks to an X server through python-xlib. A window handle stands for
  a server-side resource, identified by its 32-bit resource id. Python integers are unbounded,
  so coordinates, key codes, button codes, modifier masks and repeat counts are \<open>int\<close>.
\<close>

type_synonym window = "32 word"

text \<open>The event classes of \<^verbatim>\<open>Xlib.protocol.event\<close> that the module instantiates.\<close>

datatype event_class = KeyPress | KeyRelease | ButtonPress | ButtonRelease | MotionNotify

text \<open>The type codes \<^verbatim>\<open>X.KeyPress\<close> ... \<^verbatim>\<open>X.MotionNotify\<close>, kept symbolic.\<close>

datatype event_type = X_KeyPress | X_KeyRelease | X_ButtonPress | X_ButtonRelease | X_MotionNotify

text \<open>
  \<^verbatim>\<open>X.NONE\<close>, \<^verbatim>\<open>X.CurrentTime\<close>, \<^verbatim>\<open>X.NotifyNormal\<close> and
  \<^verbatim>\<open>X.AnyPropertyType\<close> are all the integer 0 in \<^verbatim>\<open>Xlib.X\<close>.
\<close>

definition X_NONE :: nat where "X_NONE = 0"
definition X_CurrentTime :: nat where "X_CurrentTime = 0"
definition X_NotifyNormal :: int where "X_NotifyNormal = 0"
definition X_AnyPropertyType :: nat where "X_AnyPropertyType = 0"

text \<open>The keyword arguments that \<^verbatim>\<open>send_event\<close> hands to the event class.\<close>

record event =
  ev_class :: event_class
  ev_type :: event_type
  detail :: int
  time :: nat
  root :: nat
  ev_window :: window
  child :: nat
  root_x :: int
  root_y :: int
  event_x :: int
  event_y :: int
  state :: int
  same_screen :: int

text \<open>
  What the program does to the outside world, in program order: an event handed to
  \<^verbatim>\<open>window.send_event\<close>, a \<^verbatim>\<open>window.display.flush()\<close>, a \<^verbatim>\<open>sleep\<close>
  (its duration in milliseconds). The state threaded through every operation is the list of
  actions performed so far; the window is a recording handle whose own methods never raise.
\<close>

datatype action = SendEvent window event | Flush window | Sleep nat

type_synonym trace = "action list"

fun sent_events :: "trace \<Rightarrow> event list" where
  "sent_events [] = []"
| "sent_events (SendEvent w e # as) = e # sent_events as"
| "sent_events (Flush w # as) = sent_events as"
| "sent_events (Sleep d # as) = sent_events as"

text \<open>
  Python exceptions as values: a plain \<^verbatim>\<open>Exception(message)\<close>, \<^verbatim>\<open>struct.error\<close> from
  packing an event field that does not fit, the two the interpreter raises itself in
  \<^verbatim>\<open>get_window_pid\<close>, and an error reply of the X server.
\<close>

datatype error = Exception string | StructError | AttributeError | IndexError | XError string

text \<open>A call that raises leaves the trace as it was when the exception left it; one that
  returns hands its value on.\<close>

definition and_then ::
  "(error + 'a) \<times> trace \<Rightarrow> ('a \<Rightarrow> trace \<Rightarrow> (error + 'b) \<times> trace) \<Rightarrow> (error + 'b) \<times> trace" where
  "and_then r f = (case r of (Inl e, s) \<Rightarrow> (Inl e, s) | (Inr v, s) \<Rightarrow> f v s)"

text \<open>The module constants (24 ms each; button codes).\<close>

definition KEY_EVENT_INTERVAL :: nat where "KEY_EVENT_INTERVAL = 24"
definition MOUSE_HELD_DURATION :: nat where "MOUSE_HELD_DURATION = 24"

definition MOUSE_LEFT :: int where "MOUSE_LEFT = 1"
definition MOUSE_RIGHT :: int where "MOUSE_RIGHT = 2"
definition MOUSE_SCROLL_UP :: int where "MOUSE_SCROLL_UP = 4"
definition MOUSE_SCROLL_DOWN :: int where "MOUSE_SCROLL_DOWN = 5"

definition sleep :: "nat \<Rightarrow> trace \<Rightarrow> trace" where
  "sleep d s = s @ [Sleep d]"

section \<open>send_event: the primary window event issuer\<close>

text \<open>
  The wire fields of a key, button or motion event in python-xlib: \<^verbatim>\<open>detail\<close> is a CARD8,
  \<^verbatim>\<open>event_x\<close> and \<^verbatim>\<open>event_y\<close> are INT16, \<^verbatim>\<open>state\<close> is a CARD16.
\<close>

definition fits_card8 :: "int \<Rightarrow> bool" where
  "fits_card8 v = (0 \<le> v \<and> v \<le> 255)"

definition fits_int16 :: "int \<Rightarrow> bool" where
  "fits_int16 v = (- 32768 \<le> v \<and> v \<le> 32767)"

definition fits_card16 :: "int \<Rightarrow> bool" where
  "fits_card16 v = (0 \<le> v \<and> v \<le> 65535)"

text \<open>
  \<^verbatim>\<open>event_class(type=..., detail=..., ...)\<close>: \<open>event_record\<close> is the record of the keyword
  arguments. The constructor packs the fields at once and raises \<^verbatim>\<open>struct.error\<close> when one
  of them does not fit; the fields that \<^verbatim>\<open>send_event\<close> fixes itself (time, root, child,
  root_x, root_y, same_screen) always fit.
\<close>

definition event_record ::
  "window \<Rightarrow> event_class \<Rightarrow> event_type \<Rightarrow> int \<Rightarrow> int \<Rightarrow> int \<Rightarrow> int \<Rightarrow> event" where
  "event_record w cls ty keycode x y modifiers =
     \<lparr> ev_class = cls, ev_type = ty, detail = keycode, time = X_CurrentTime,
       root = X_NONE, ev_window = w, child = X_NONE, root_x = 0, root_y = 0,
       event_x = x, event_y = y, state = modifiers, same_screen = 1 \<rparr>"

definition make_event ::
  "window \<Rightarrow> event_class \<Rightarrow> event_type \<Rightarrow> int \<Rightarrow> int \<Rightarrow> int \<Rightarrow> int \<Rightarrow> error + event" where
  "make_event w cls ty keycode x y modifiers =
     (if fits_card8 keycode \<and> fits_int16 x \<and> fits_int16 y \<and> fits_card16 modifiers
      then Inr (event_record w cls ty keycode x y modifiers)
      else Inl StructError)"

definition send_event ::
  "window \<Rightarrow> event_class \<Rightarrow> event_type \<Rightarrow> int \<Rightarrow> int \<Rightarrow> int \<Rightarrow> int \<Rightarrow> trace \<Rightarrow> (error + unit) \<times> trace" where
  "send_event w cls ty keycode x y modifiers s =
     (case make_event w cls ty keycode x y modifiers of
        Inl e \<Rightarrow> (Inl e, s)
      | Inr ev \<Rightarrow> (Inr (), s @ [SendEvent w ev, Flush w]))"

section \<open>General mouse functions\<close>

definition mouse_down :: "window \<Rightarrow> int \<Rightarrow> int \<Rightarrow> int \<Rightarrow> trace \<Rightarrow> (error + unit) \<times> trace" where
  "mouse_down w x y code s = send_event w ButtonPress X_ButtonPress code x y 0 s"

definition mouse_move :: "window \<Rightarrow> int \<Rightarrow> int \<Rightarrow> trace \<Rightarrow> (error + unit) \<times> trace" where
  "mouse_move w x y s = send_event w MotionNotify X_MotionNotify X_NotifyNormal x y 0 s"

definition mouse_up :: "window \<Rightarrow> int \<Rightarrow> int \<Rightarrow> int \<Rightarrow> trace \<Rightarrow> (error + unit) \<times> trace" where
  "mouse_up w x y code s = send_event w ButtonRelease X_ButtonRelease code x y 0 s"

section \<open>Click and scroll\<close>

definition click :: "window \<Rightarrow> int \<Rightarrow> int \<Rightarrow> int \<Rightarrow> trace \<Rightarrow> (error + int) \<times> trace" where
  "click w x y code s =
     and_then (mouse_move w x y s) (\<lambda>_ s1.
     and_then (mouse_down w x y code s1) (\<lambda>_ s2.
     and_then (mouse_up w x y code (sleep MOUSE_HELD_DURATION s2)) (\<lambda>_ s3.
     (Inr code, s3))))"

text \<open>\<^verbatim>\<open>for _ in range(repeat): click(...)\<close>: \<open>range\<close> of a non-positive count is empty.\<close>

fun click_times :: "nat \<Rightarrow> window \<Rightarrow> int \<Rightarrow> int \<Rightarrow> int \<Rightarrow> trace \<Rightarrow> (error + unit) \<times> trace" where
  "click_times 0 w x y code s = (Inr (), s)"
| "click_times (Suc n) w x y code s =
     (case click w x y code s of
        (Inl e, s') \<Rightarrow> (Inl e, s')
      | (Inr c, s') \<Rightarrow> click_times n w x y code s')"

definition scroll_down :: "window \<Rightarrow> int \<Rightarrow> int \<Rightarrow> int \<Rightarrow> trace \<Rightarrow> (error + int) \<times> trace" where
  "scroll_down w x y repeat s =
     and_then (mouse_move w x y s) (\<lambda>_ s1.
     and_then (click_times (nat repeat) w x y MOUSE_SCROLL_DOWN s1) (\<lambda>_ s2.
     (Inr repeat, s2)))"

definition scroll_up :: "window \<Rightarrow> int \<Rightarrow> int \<Rightarrow> int \<Rightarrow> trace \<Rightarrow> (error + int) \<times> trace" where
  "scroll_up w x y repeat s =
     and_then (mouse_move w x y s) (\<lambda>_ s1.
     and_then (click_times (nat repeat) w x y MOUSE_SCROLL_UP s1) (\<lambda>_ s2.
     (Inr repeat, s2)))"

section \<open>Key functions\<close>

text \<open>
  The value of a property reply, \<^verbatim>\<open>reply.value\<close>: python-xlib hands a format-8 property
  over as a byte string, which has no \<^verbatim>\<open>tolist\<close>, and a format-16 or format-32 property as
  an array of integers.
\<close>

datatype property_value = Bytes "nat list" | Array "int list"

record property_reply =
  prop_value :: property_value

text \<open>
  What the module asks of python-xlib and of the display, taken as parameters:
  \<^item> \<^verbatim>\<open>Xlib.XK.string_to_keysym\<close> (0 is \<^verbatim>\<open>NoSymbol\<close>);
  \<^item> \<^verbatim>\<open>DISPLAY.keysym_to_keycode\<close>: a key code of the keyboard mapping, or 0 when the keysym
    is bound to no key; key codes are 8-bit in the X protocol;
  \<^item> the atoms interned on the window's display: a name with entry \<open>n\<close> has the atom \<open>n + 1\<close>
    (atoms are positive, 0 is \<^verbatim>\<open>X.NONE\<close>);
  \<^item> the properties a window carries, by atom: what the window answers to a request for the
    first ten units of the property.
\<close>

record xenv =
  string_to_keysym :: "string \<Rightarrow> int"
  keysym_to_keycode :: "int \<Rightarrow> 8 word"
  atom_index :: "window \<Rightarrow> string \<Rightarrow> nat option"
  window_properties :: "window \<Rightarrow> nat \<Rightarrow> property_reply option"

text \<open>The two convenient conversions at the head of \<^verbatim>\<open>get_key_code\<close>.\<close>

definition convert_name :: "string \<Rightarrow> string" where
  "convert_name character =
     (if character = ''Ctrl'' then ''Control''
      else if character = ''Enter'' then ''Return''
      else character)"

definition get_key_code :: "xenv \<Rightarrow> string \<Rightarrow> error + int" where
  "get_key_code env character =
     (let character = convert_name character;
          sym = string_to_keysym env character
      in if sym = 0 then Inl (Exception (''NoSymbol found for character: '' @ character))
         else Inr (uint (keysym_to_keycode env sym)))"

definition key_press :: "window \<Rightarrow> int \<Rightarrow> int \<Rightarrow> trace \<Rightarrow> (error + unit) \<times> trace" where
  "key_press w keycode modifiers s = send_event w KeyPress X_KeyPress keycode 0 0 modifiers s"

definition key_release :: "window \<Rightarrow> int \<Rightarrow> int \<Rightarrow> trace \<Rightarrow> (error + unit) \<times> trace" where
  "key_release w keycode modifiers s = send_event w KeyRelease X_KeyRelease keycode 0 0 modifiers s"

subsection \<open>Parsing a key string\<close>

text \<open>\<^verbatim>\<open>str.split(sep)\<close> for a one-character separator: \<^verbatim>\<open>'a++b'.split('+')\<close> is
  \<^verbatim>\<open>['a', '', 'b']\<close>, and the empty string splits into \<^verbatim>\<open>['']\<close>.\<close>

fun split :: "char \<Rightarrow> string \<Rightarrow> string list" where
  "split sep [] = [[]]"
| "split sep (c # cs) =
     (if c = sep then [] # split sep cs
      else (case split sep cs of
              [] \<Rightarrow> [[c]]
            | part # parts \<Rightarrow> (c # part) # parts))"

text \<open>\<^verbatim>\<open>str.capitalize()\<close> on ASCII text: first character upper case, the rest lower case.
  The module applies it to \<^verbatim>\<open>alt\<close>, \<^verbatim>\<open>control\<close> and \<^verbatim>\<open>shift\<close> only.\<close>

definition upper_chr :: "char \<Rightarrow> char" where
  "upper_chr c =
     (case map_of (zip ''abcdefghijklmnopqrstuvwxyz'' ''ABCDEFGHIJKLMNOPQRSTUVWXYZ'') c of
        Some u \<Rightarrow> u | None \<Rightarrow> c)"

definition lower_chr :: "char \<Rightarrow> char" where
  "lower_chr c =
     (case map_of (zip ''ABCDEFGHIJKLMNOPQRSTUVWXYZ'' ''abcdefghijklmnopqrstuvwxyz'') c of
        Some l \<Rightarrow> l | None \<Rightarrow> c)"

fun capitalize :: "string \<Rightarrow> string" where
  "capitalize [] = []"
| "capitalize (c # cs) = upper_chr c # map lower_chr cs"

text \<open>The loop of \<^verbatim>\<open>_parse_key_string\<close> over the parts, with its two accumulators; a
  \<^verbatim>\<open>get_key_code\<close> that raises ends the loop.\<close>

fun parse_parts :: "xenv \<Rightarrow> string list \<Rightarrow> int list \<Rightarrow> int list \<Rightarrow> error + (int list \<times> int list)" where
  "parse_parts env [] primaries mods = Inr (primaries, mods)"
| "parse_parts env (part # parts) primaries mods =
     (if part \<in> {''alt'', ''control'', ''shift''}
      then (case get_key_code env (capitalize part @ ''_L'') of
              Inl e \<Rightarrow> Inl e
            | Inr code \<Rightarrow> parse_parts env parts primaries (mods @ [code]))
      else (case get_key_code env part of
              Inl e \<Rightarrow> Inl e
            | Inr code \<Rightarrow> parse_parts env parts (primaries @ [code]) mods))"

text \<open>\<^verbatim>\<open>_parse_key_string\<close> (an Isabelle name cannot start with an underscore).\<close>

definition parse_key_string :: "xenv \<Rightarrow> string \<Rightarrow> error + (int list \<times> int list)" where
  "parse_key_string env key =
     (if CHR ''+'' \<notin> set key \<or> key = ''+''
      then (case get_key_code env key of Inl e \<Rightarrow> Inl e | Inr code \<Rightarrow> Inr ([code], []))
      else parse_parts env (split CHR ''+'' key) [] [])"

subsection \<open>Sending keys\<close>

text \<open>The three loops of \<^verbatim>\<open>send_key\<close>; an event that raises ends the loop and the call.\<close>

fun hold_down :: "window \<Rightarrow> int list \<Rightarrow> int \<Rightarrow> trace \<Rightarrow> (error + unit) \<times> trace" where
  "hold_down w [] modifiers s = (Inr (), s)"
| "hold_down w (keycode # mods) modifiers s =
     (case key_press w keycode modifiers s of
        (Inl e, s1) \<Rightarrow> (Inl e, s1)
      | (Inr u, s1) \<Rightarrow> hold_down w mods modifiers (sleep KEY_EVENT_INTERVAL s1))"

fun press_primaries :: "window \<Rightarrow> int list \<Rightarrow> int \<Rightarrow> trace \<Rightarrow> (error + unit) \<times> trace" where
  "press_primaries w [] modifiers s = (Inr (), s)"
| "press_primaries w (keycode # primaries) modifiers s =
     (case key_press w keycode modifiers s of
        (Inl e, s1) \<Rightarrow> (Inl e, s1)
      | (Inr u, s1) \<Rightarrow>
          (case key_release w keycode modifiers (sleep KEY_EVENT_INTERVAL s1) of
             (Inl e, s2) \<Rightarrow> (Inl e, s2)
           | (Inr u, s2) \<Rightarrow> press_primaries w primaries modifiers (sleep KEY_EVENT_INTERVAL s2)))"

fun press_repeat :: "nat \<Rightarrow> window \<Rightarrow> int list \<Rightarrow> int \<Rightarrow> trace \<Rightarrow> (error + unit) \<times> trace" where
  "press_repeat 0 w primaries modifiers s = (Inr (), s)"
| "press_repeat (Suc n) w primaries modifiers s =
     (case press_primaries w primaries modifiers s of
        (Inl e, s1) \<Rightarrow> (Inl e, s1)
      | (Inr u, s1) \<Rightarrow> press_repeat n w primaries modifiers s1)"

fun release_all :: "window \<Rightarrow> int list \<Rightarrow> int \<Rightarrow> trace \<Rightarrow> (error + unit) \<times> trace" where
  "release_all w [] modifiers s = (Inr (), s)"
| "release_all w (keycode # mods) modifiers s =
     (case key_release w keycode modifiers s of
        (Inl e, s1) \<Rightarrow> (Inl e, s1)
      | (Inr u, s1) \<Rightarrow> release_all w mods modifiers (sleep KEY_EVENT_INTERVAL s1))"

definition send_key :: "xenv \<Rightarrow> window \<Rightarrow> string \<Rightarrow> int \<Rightarrow> int \<Rightarrow> trace \<Rightarrow> (error + unit) \<times> trace" where
  "send_key env w key repeat modifiers s =
     (case parse_key_string env key of
        Inl e \<Rightarrow> (Inl e, s)
      | Inr (primaries, mods) \<Rightarrow>
          and_then (hold_down w mods modifiers s) (\<lambda>_ s1.
          and_then (press_repeat (nat repeat) w primaries modifiers s1) (\<lambda>_ s2.
          release_all w (rev mods) modifiers s2)))"



section \<open>KeyPressed: holding a key down\<close>

record KeyPressed =
  kp_window :: window
  kp_code :: int

definition KeyPressed_init :: "xenv \<Rightarrow> window \<Rightarrow> string \<Rightarrow> error + KeyPressed" where
  "KeyPressed_init env w key =
     (case get_key_code env key of
        Inl e \<Rightarrow> Inl e
      | Inr c \<Rightarrow> Inr \<lparr> kp_window = w, kp_code = c \<rparr>)"

definition KeyPressed_enter :: "KeyPressed \<Rightarrow> trace \<Rightarrow> (error + unit) \<times> trace" where
  "KeyPressed_enter self s = key_press (kp_window self) (kp_code self) 0 s"

definition KeyPressed_exit :: "KeyPressed \<Rightarrow> trace \<Rightarrow> (error + unit) \<times> trace" where
  "KeyPressed_exit self s = key_release (kp_window self) (kp_code self) 0 s"

text \<open>
  Python's \<^verbatim>\<open>with mgr: body\<close> for a \<^verbatim>\<open>KeyPressed\<close> manager. An \<^verbatim>\<open>__enter__\<close> that raises
  ends the statement. Otherwise the body runs, and then \<^verbatim>\<open>__exit__\<close> whether the body
  returned or raised; \<^verbatim>\<open>__exit__\<close> returns \<^verbatim>\<open>None\<close>, so an exception of the body is raised
  again after it, and an exception of \<^verbatim>\<open>__exit__\<close> itself takes its place. The body is any
  computation on the trace that returns a value or raises.
\<close>

definition with_KeyPressed ::
  "KeyPressed \<Rightarrow> (trace \<Rightarrow> (error + 'a) \<times> trace) \<Rightarrow> trace \<Rightarrow> (error + 'a) \<times> trace" where
  "with_KeyPressed mgr body s =
     and_then (KeyPressed_enter mgr s) (\<lambda>_ s1.
       (case body s1 of
          (r, s2) \<Rightarrow> and_then (KeyPressed_exit mgr s2) (\<lambda>_ s3. (r, s3))))"

text \<open>\<^verbatim>\<open>with KeyPressed(window, key): body\<close>: the manager is constructed first.\<close>

definition hold_key ::
  "xenv \<Rightarrow> window \<Rightarrow> string \<Rightarrow> (trace \<Rightarrow> (error + 'a) \<times> trace) \<Rightarrow> trace \<Rightarrow> (error + 'a) \<times> trace" where
  "hold_key env w key body s =
     (case KeyPressed_init env w key of
        Inl e \<Rightarrow> (Inl e, s)
      | Inr mgr \<Rightarrow> with_KeyPressed mgr body s)"

section \<open>The process id of a window\<close>

text \<open>
  Modelled from the spec: python-xlib's \<^verbatim>\<open>InternAtom\<close> request, which is not part of the
  repository (``resolves the property via an atom lookup; fails if the atom or property is
  absent''). The reply of
  \<^verbatim>\<open>InternAtom(display=window.display, name=..., only_if_exists=1)\<close> holds the atom of
  the name, or \<^verbatim>\<open>X.NONE\<close> when the display has no atom of that name. (The module only ever
  asks with \<^verbatim>\<open>only_if_exists=1\<close>; a request that creates atoms is not modelled.)
\<close>

definition intern_atom :: "xenv \<Rightarrow> window \<Rightarrow> string \<Rightarrow> int \<Rightarrow> nat" where
  "intern_atom env w name only_if_exists =
     (case atom_index env w name of None \<Rightarrow> X_NONE | Some n \<Rightarrow> Suc n)"

text \<open>
  Modelled from the spec: python-xlib's \<^verbatim>\<open>Window.get_property\<close>, which is not part of the
  repository (``fails if the atom or property is absent''). For
  \<^verbatim>\<open>window.get_property(property, type, offset, length)\<close> the server answers a request that
  names no atom with a BadAtom error, which python-xlib raises; for a property the window does
  not carry, python-xlib returns \<^verbatim>\<open>None\<close>; otherwise it returns the reply.
\<close>

definition get_property ::
  "xenv \<Rightarrow> window \<Rightarrow> nat \<Rightarrow> nat \<Rightarrow> nat \<Rightarrow> nat \<Rightarrow> error + property_reply option" where
  "get_property env w atom ty offset len =
     (if atom = X_NONE then Inl (XError ''BadAtom'') else Inr (window_properties env w atom))"

text \<open>\<^verbatim>\<open>pid.value\<close> on \<^verbatim>\<open>None\<close> and \<^verbatim>\<open>tolist\<close> on a byte string raise AttributeError,
  \<^verbatim>\<open>[0]\<close> on an empty list IndexError; \<^verbatim>\<open>int\<close> of a list element is the element.\<close>

definition get_window_pid :: "xenv \<Rightarrow> window \<Rightarrow> error + int" where
  "get_window_pid env w =
     (let atom = intern_atom env w ''_NET_WM_PID'' 1
      in case get_property env w atom X_AnyPropertyType 0 10 of
           Inl e \<Rightarrow> Inl e
         | Inr None \<Rightarrow> Inl AttributeError
         | Inr (Some pid) \<Rightarrow>
             (case prop_value pid of
                Bytes bs \<Rightarrow> Inl AttributeError
              | Array [] \<Rightarrow> Inl IndexError
              | Array (v # vs) \<Rightarrow> Inr v))"

section \<open>A sample keyboard and display\<close>

text \<open>A fragment of the keysym table of \<^verbatim>\<open>Xlib.XK\<close> (\<^verbatim>\<open>XK_a\<close>, \<^verbatim>\<open>XK_Shift_L\<close>, ...; it has
  no \<^verbatim>\<open>XK_Control\<close>) and the key codes of a common PC layout, for concrete runs. Atom 301 is
  \<^verbatim>\<open>_NET_WM_PID\<close>, except on the display of window 9, which does not know the name. Window 7
  carries the property, window 8 does not, window 10 carries it with an empty value and
  window 11 as a byte string.\<close>

definition sample_keysyms :: "(string \<times> int) list" where
  "sample_keysyms =
     [(''a'', 0x61), (''b'', 0x62), (''Return'', 0xff0d), (''Shift_L'', 0xffe1),
      (''Control_L'', 0xffe3), (''Alt_L'', 0xffe9)]"

definition sample_keycodes :: "(int \<times> 8 word) list" where
  "sample_keycodes =
     [(0x61, 38), (0x62, 56), (0xff0d, 36), (0xffe1, 50), (0xffe3, 37), (0xffe9, 64)]"

definition sample_env :: xenv where
  "sample_env =
     \<lparr> string_to_keysym = (\<lambda>name. case map_of sample_keysyms name of Some k \<Rightarrow> k | None \<Rightarrow> 0),
       keysym_to_keycode = (\<lambda>sym. case map_of sample_keycodes sym of Some c \<Rightarrow> c | None \<Rightarrow> 0),
       atom_index = (\<lambda>w name. if name = ''_NET_WM_PID'' \<and> w \<noteq> 9 then Some 300 else None),
       window_properties = (\<lambda>w atom.
          if atom = 301 \<and> w = 7 then Some \<lparr> prop_value = Array [4242] \<rparr>
          else if atom = 301 \<and> w = 10 then Some \<lparr> prop_value = Array [] \<rparr>
          else if atom = 301 \<and> w = 11 then Some \<lparr> prop_value = Bytes [52, 50] \<rparr>
          else None) \<rparr>"

section \<open>The events the specification speaks of, field by field\<close>

abbreviation move_event :: "window \<Rightarrow> int \<Rightarrow> int \<Rightarrow> event" where
  "move_event w x y \<equiv>
     \<lparr> ev_class = MotionNotify, ev_type = X_MotionNotify, detail = 0, time = 0, root = 0,
       ev_window = w, child = 0, root_x = 0, root_y = 0, event_x = x, event_y = y,
       state = 0, same_screen = 1 \<rparr>"

abbreviation button_press_event :: "window \<Rightarrow> int \<Rightarrow> int \<Rightarrow> int \<Rightarrow> event" where
  "button_press_event w x y code \<equiv>
     \<lparr> ev_class = ButtonPress, ev_type = X_ButtonPress, detail = code, time = 0, root = 0,
       ev_window = w, child = 0, root_x = 0, root_y = 0, event_x = x, event_y = y,
       state = 0, same_screen = 1 \<rparr>"

abbreviation button_release_event :: "window \<Rightarrow> int \<Rightarrow> int \<Rightarrow> int \<Rightarrow> event" where
  "button_release_event w x y code \<equiv>
     \<lparr> ev_class = ButtonRelease, ev_type = X_ButtonRelease, detail = code, time = 0, root = 0,
       ev_window = w, child = 0, root_x = 0, root_y = 0, event_x = x, event_y = y,
       state = 0, same_screen = 1 \<rparr>"

abbreviation key_press_event :: "window \<Rightarrow> int \<Rightarrow> int \<Rightarrow> event" where
  "key_press_event w keycode modifiers \<equiv>
     \<lparr> ev_class = KeyPress, ev_type = X_KeyPress, detail = keycode, time = 0, root = 0,
       ev_window = w, child = 0, root_x = 0, root_y = 0, event_x = 0, event_y = 0,
       state = modifiers, same_screen = 1 \<rparr>"

abbreviation key_release_event :: "window \<Rightarrow> int \<Rightarrow> int \<Rightarrow> event" where
  "key_release_event w keycode modifiers \<equiv>
     \<lparr> ev_class = KeyRelease, ev_type = X_KeyRelease, detail = keycode, time = 0, root = 0,
       ev_window = w, child = 0, root_x = 0, root_y = 0, event_x = 0, event_y = 0,
       state = modifiers, same_screen = 1 \<rparr>"

text \<open>The same events as \<open>send_event\<close> builds them from its arguments.\<close>

abbreviation move_record :: "window \<Rightarrow> int \<Rightarrow> int \<Rightarrow> event" where
  "move_record w x y \<equiv> event_record w MotionNotify X_MotionNotify X_NotifyNormal x y 0"

abbreviation button_press_record :: "window \<Rightarrow> int \<Rightarrow> int \<Rightarrow> int \<Rightarrow> event" where
  "button_press_record w x y code \<equiv> event_record w ButtonPress X_ButtonPress code x y 0"

abbreviation button_release_record :: "window \<Rightarrow> int \<Rightarrow> int \<Rightarrow> int \<Rightarrow> event" where
  "button_release_record w x y code \<equiv> event_record w ButtonRelease X_ButtonRelease code x y 0"

abbreviation key_press_record :: "window \<Rightarrow> int \<Rightarrow> int \<Rightarrow> event" where
  "key_press_record w keycode modifiers \<equiv> event_record w KeyPress X_KeyPress keycode 0 0 modifiers"

abbreviation key_release_record :: "window \<Rightarrow> int \<Rightarrow> int \<Rightarrow> event" where
  "key_release_record w keycode modifiers \<equiv>
     event_record w KeyRelease X_KeyRelease keycode 0 0 modifiers"

section \<open>Reading \<open>get_key_code\<close>\<close>

definition resolves :: "xenv \<Rightarrow> string \<Rightarrow> bool" where
  "resolves env character = (string_to_keysym env (convert_name character) \<noteq> 0)"

definition key_code_of :: "xenv \<Rightarrow> string \<Rightarrow> int" where
  "key_code_of env character =
     uint (keysym_to_keycode env (string_to_keysym env (convert_name character)))"


section \<open>Shared facts\<close>

lemmas wire_defs = event_record_def X_NONE_def X_CurrentTime_def X_NotifyNormal_def

lemmas run_defs =
  send_event_def make_event_def fits_card8_def fits_int16_def fits_card16_def sleep_def
  mouse_move_def mouse_down_def mouse_up_def click_def key_press_def key_release_def
  KEY_EVENT_INTERVAL_def MOUSE_HELD_DURATION_def wire_defs

lemmas sample_defs =
  get_key_code_def convert_name_def sample_env_def sample_keysyms_def sample_keycodes_def

lemma sent_events_append: "sent_events (s @ t) = sent_events s @ sent_events t"
  by (induction s rule: sent_events.induct) simp_all

lemma sent_events_replicate:
  "sent_events (concat (replicate n t)) = concat (replicate n (sent_events t))"
  by (induction n) (simp_all add: sent_events_append)

lemma and_then_raise [simp]: "and_then (Inl e, s) f = (Inl e, s)"
  by (simp add: and_then_def)

lemma and_then_return [simp]: "and_then (Inr v, s) f = f v s"
  by (simp add: and_then_def)

lemma fits_zero [simp]: "fits_card8 0" "fits_int16 0" "fits_card16 0"
  by (simp_all add: fits_card8_def fits_int16_def fits_card16_def)

lemma send_event_sends:
  assumes "fits_card8 keycode" "fits_int16 x" "fits_int16 y" "fits_card16 modifiers"
  shows "send_event w cls ty keycode x y modifiers s =
    (Inr (), s @ [SendEvent w (event_record w cls ty keycode x y modifiers), Flush w])"
  using assms by (simp add: send_event_def make_event_def)

lemma click_trace:
  assumes "fits_card8 code" "fits_int16 x" "fits_int16 y"
  shows "click w x y code s =
     (Inr code, s @ [SendEvent w (move_record w x y), Flush w,
                     SendEvent w (button_press_record w x y code), Flush w,
                     Sleep MOUSE_HELD_DURATION,
                     SendEvent w (button_release_record w x y code), Flush w])"
  using assms
  by (simp add: click_def mouse_move_def mouse_down_def mouse_up_def send_event_sends sleep_def
      X_NotifyNormal_def)

lemma click_times_trace:
  assumes "fits_card8 code" "fits_int16 x" "fits_int16 y"
  shows "click_times n w x y code s =
     (Inr (), s @ concat (replicate n
        [SendEvent w (move_record w x y), Flush w,
         SendEvent w (button_press_record w x y code), Flush w,
         Sleep MOUSE_HELD_DURATION,
         SendEvent w (button_release_record w x y code), Flush w]))"
proof (induction n arbitrary: s)
  case 0
  show ?case by simp
next
  case (Suc n)
  show ?case
    by (simp add: click_trace [OF assms] Suc.IH)
qed

lemma scroll_codes_fit: "fits_card8 MOUSE_SCROLL_UP" "fits_card8 MOUSE_SCROLL_DOWN"
  by (simp_all add: fits_card8_def MOUSE_SCROLL_UP_def MOUSE_SCROLL_DOWN_def)

lemma scroll_up_trace:
  assumes "fits_int16 x" "fits_int16 y"
  shows "scroll_up w x y repeat s =
     (Inr repeat,
      s @ [SendEvent w (move_record w x y), Flush w]
        @ concat (replicate (nat repeat)
            [SendEvent w (move_record w x y), Flush w,
             SendEvent w (button_press_record w x y MOUSE_SCROLL_UP), Flush w,
             Sleep MOUSE_HELD_DURATION,
             SendEvent w (button_release_record w x y MOUSE_SCROLL_UP), Flush w]))"
  using assms
  by (simp add: scroll_up_def mouse_move_def send_event_sends X_NotifyNormal_def
      click_times_trace [OF scroll_codes_fit(1)])

lemma scroll_down_trace:
  assumes "fits_int16 x" "fits_int16 y"
  shows "scroll_down w x y repeat s =
     (Inr repeat,
      s @ [SendEvent w (move_record w x y), Flush w]
        @ concat (replicate (nat repeat)
            [SendEvent w (move_record w x y), Flush w,
             SendEvent w (button_press_record w x y MOUSE_SCROLL_DOWN), Flush w,
             Sleep MOUSE_HELD_DURATION,
             SendEvent w (button_release_record w x y MOUSE_SCROLL_DOWN), Flush w]))"
  using assms
  by (simp add: scroll_down_def mouse_move_def send_event_sends X_NotifyNormal_def
      click_times_trace [OF scroll_codes_fit(2)])

section \<open>Click and scroll: the events issued\<close>

text \<open>
  C3, as the code has it. For every window, coordinates (x, y) that fit a signed 16-bit field
  and button code that fits an unsigned 8-bit field, \<open>click\<close> adds to the events already sent
  exactly three events, in this order: a pointer move to (x, y), a button press with the
  supplied code at (x, y), a button release with the same code at (x, y); it returns the
  supplied code. Outside these ranges the event constructor raises \<^verbatim>\<open>struct.error\<close>: after
  the pointer move alone when only the code does not fit, before anything is sent when a
  coordinate does not fit.
\<close>

theorem click_move_press_release:
  "(0 \<le> code \<and> code \<le> 255 \<and> - 32768 \<le> x \<and> x \<le> 32767 \<and> - 32768 \<le> y \<and> y \<le> 32767 \<longrightarrow>
      fst (click w x y code s) = Inr code \<and>
      sent_events (snd (click w x y code s)) =
        sent_events s @ [move_event w x y, button_press_event w x y code,
                         button_release_event w x y code]) \<and>
   ((code < 0 \<or> 255 < code) \<and> - 32768 \<le> x \<and> x \<le> 32767 \<and> - 32768 \<le> y \<and> y \<le> 32767 \<longrightarrow>
      fst (click w x y code s) = Inl StructError \<and>
      sent_events (snd (click w x y code s)) = sent_events s @ [move_event w x y]) \<and>
   (x < - 32768 \<or> 32767 < x \<or> y < - 32768 \<or> 32767 < y \<longrightarrow>
      click w x y code s = (Inl StructError, s))"
proof (intro conjI impI)
  assume "0 \<le> code \<and> code \<le> 255 \<and> - 32768 \<le> x \<and> x \<le> 32767 \<and> - 32768 \<le> y \<and> y \<le> 32767"
  then have run: "click w x y code s =
      (Inr code, s @ [SendEvent w (move_event w x y), Flush w,
                      SendEvent w (button_press_event w x y code), Flush w,
                      Sleep 24,
                      SendEvent w (button_release_event w x y code), Flush w])"
    by (simp add: click_def mouse_move_def mouse_down_def mouse_up_def send_event_def
        make_event_def fits_card8_def fits_int16_def fits_card16_def sleep_def
        MOUSE_HELD_DURATION_def wire_defs)
  show "fst (click w x y code s) = Inr code"
    by (simp add: run)
  show "sent_events (snd (click w x y code s)) =
        sent_events s @ [move_event w x y, button_press_event w x y code,
                         button_release_event w x y code]"
    by (simp add: run sent_events_append)
next
  assume "(code < 0 \<or> 255 < code) \<and> - 32768 \<le> x \<and> x \<le> 32767 \<and> - 32768 \<le> y \<and> y \<le> 32767"
  then have run: "click w x y code s =
      (Inl StructError, s @ [SendEvent w (move_event w x y), Flush w])"
    by (auto simp: click_def mouse_move_def mouse_down_def send_event_def
        make_event_def fits_card8_def fits_int16_def fits_card16_def wire_defs)
  show "fst (click w x y code s) = Inl StructError"
    by (simp add: run)
  show "sent_events (snd (click w x y code s)) = sent_events s @ [move_event w x y]"
    by (simp add: run sent_events_append)
next
  assume "x < - 32768 \<or> 32767 < x \<or> y < - 32768 \<or> 32767 < y"
  then show "click w x y code s = (Inl StructError, s)"
    by (auto simp: click_def mouse_move_def send_event_def make_event_def fits_int16_def)
qed

theorem click_move_press_release_witness:
  "fst (click 7 10 20 MOUSE_RIGHT []) = Inr 2 \<and>
   map ev_class (sent_events (snd (click 7 10 20 MOUSE_RIGHT []))) =
     [MotionNotify, ButtonPress, ButtonRelease] \<and>
   map detail (sent_events (snd (click 7 10 20 MOUSE_RIGHT []))) = [0, 2, 2] \<and>
   map event_x (sent_events (snd (click 7 10 20 MOUSE_RIGHT []))) = [10, 10, 10] \<and>
   map event_y (sent_events (snd (click 7 10 20 MOUSE_RIGHT []))) = [20, 20, 20] \<and>
   fst (click 7 10 20 (- 1) []) = Inl StructError \<and>
   map ev_class (sent_events (snd (click 7 10 20 (- 1) []))) = [MotionNotify] \<and>
   click 7 10 (- 32769) 1 [] = (Inl StructError, []) \<and>
   snd (click 7 10 20 MOUSE_RIGHT []) =
     [SendEvent 7 (move_event 7 10 20), Flush 7,
      SendEvent 7 (button_press_event 7 10 20 2), Flush 7, Sleep 24,
      SendEvent 7 (button_release_event 7 10 20 2), Flush 7]"
proof -
  have run: "snd (click 7 10 20 MOUSE_RIGHT []) =
     [SendEvent 7 (move_event 7 10 20), Flush 7,
      SendEvent 7 (button_press_event 7 10 20 2), Flush 7, Sleep 24,
      SendEvent 7 (button_release_event 7 10 20 2), Flush 7]"
    by (simp add: run_defs MOUSE_RIGHT_def)
  show ?thesis
    using run click_move_press_release [of MOUSE_RIGHT 10 20 7 "[]"]
      click_move_press_release [of "- 1" 10 20 7 "[]"]
      click_move_press_release [of 1 10 "- 32769" 7 "[]"]
    by (simp add: MOUSE_RIGHT_def)
qed

text \<open>
  C3 as the specification words it (for every button code and every coordinate) fails:
  \<open>click(window, 10, 20, 256)\<close> raises after the pointer move, with no press, no release and
  nothing returned, and \<open>click(window, 32768, 20, 1)\<close> raises before any event.
\<close>

theorem click_counterexample:
  "click 7 10 20 256 [] = (Inl StructError, [SendEvent 7 (move_event 7 10 20), Flush 7]) \<and>
   click 7 32768 20 1 [] = (Inl StructError, [])"
  by (simp add: wire_defs click_def mouse_move_def mouse_down_def send_event_def make_event_def
      fits_card8_def fits_int16_def fits_card16_def X_NotifyNormal_def X_NONE_def
      X_CurrentTime_def)

text \<open>
  C1, as the code has it. For coordinates that fit a signed 16-bit field, \<open>scroll_up\<close> issues
  one pointer move and then, \<open>repeat\<close> times, a whole \<open>click\<close>: a pointer move, a press and a
  release with the scroll-up code 4. So the pointer moves \<open>1 + repeat\<close> times, not once. It
  returns \<open>repeat\<close>. \<open>scroll_down\<close> does the same with the scroll-down code 5. (A \<open>repeat\<close>
  below 1 gives the single pointer move and no click.)
\<close>

theorem scroll_events:
  assumes "- 32768 \<le> x" "x \<le> 32767" "- 32768 \<le> y" "y \<le> 32767"
  shows
  "fst (scroll_up w x y repeat s) = Inr repeat \<and>
   sent_events (snd (scroll_up w x y repeat s)) =
     sent_events s @ move_event w x y # concat (replicate (nat repeat)
       [move_event w x y, button_press_event w x y 4, button_release_event w x y 4]) \<and>
   fst (scroll_down w x y repeat s) = Inr repeat \<and>
   sent_events (snd (scroll_down w x y repeat s)) =
     sent_events s @ move_event w x y # concat (replicate (nat repeat)
       [move_event w x y, button_press_event w x y 5, button_release_event w x y 5])"
proof -
  have f: "fits_int16 x" "fits_int16 y"
    using assms by (simp_all add: wire_defs fits_int16_def)
  show ?thesis
    by (simp add: wire_defs scroll_up_trace [OF f] scroll_down_trace [OF f] sent_events_append
        sent_events_replicate MOUSE_SCROLL_UP_def MOUSE_SCROLL_DOWN_def)
qed

theorem scroll_events_witness:
  "fst (scroll_up 7 10 20 2 []) = Inr 2 \<and>
   map ev_class (sent_events (snd (scroll_up 7 10 20 2 []))) =
     [MotionNotify, MotionNotify, ButtonPress, ButtonRelease,
      MotionNotify, ButtonPress, ButtonRelease] \<and>
   map detail (sent_events (snd (scroll_up 7 10 20 2 []))) = [0, 0, 4, 4, 0, 4, 4] \<and>
   fst (scroll_down 7 10 20 1 []) = Inr 1 \<and>
   map detail (sent_events (snd (scroll_down 7 10 20 1 []))) = [0, 0, 5, 5] \<and>
   snd (scroll_up 7 10 20 1 []) =
     [SendEvent 7 (move_event 7 10 20), Flush 7,
      SendEvent 7 (move_event 7 10 20), Flush 7,
      SendEvent 7 (button_press_event 7 10 20 4), Flush 7, Sleep 24,
      SendEvent 7 (button_release_event 7 10 20 4), Flush 7]"
proof -
  have run: "snd (scroll_up 7 10 20 1 []) =
     [SendEvent 7 (move_event 7 10 20), Flush 7,
      SendEvent 7 (move_event 7 10 20), Flush 7,
      SendEvent 7 (button_press_event 7 10 20 4), Flush 7, Sleep 24,
      SendEvent 7 (button_release_event 7 10 20 4), Flush 7]"
    by (simp add: scroll_up_def run_defs MOUSE_SCROLL_UP_def)
  show ?thesis
    using run scroll_events [of 10 20 7 2 "[]"] scroll_events [of 10 20 7 1 "[]"]
    by (simp add: numeral_2_eq_2)
qed

text \<open>
  C1 as the specification words it (exactly one pointer move, then two press/release pairs)
  fails for \<open>scroll_up(window, 10, 20, repeat=2)\<close>: three of the seven events are pointer moves.
\<close>

theorem scroll_up_counterexample:
  "map ev_class (sent_events (snd (scroll_up 7 10 20 2 []))) =
     [MotionNotify, MotionNotify, ButtonPress, ButtonRelease, MotionNotify, ButtonPress, ButtonRelease] \<and>
   map ev_class (sent_events (snd (scroll_up 7 10 20 2 []))) \<noteq>
     [MotionNotify, ButtonPress, ButtonRelease, ButtonPress, ButtonRelease] \<and>
   count_list (map ev_class (sent_events (snd (scroll_up 7 10 20 2 [])))) MotionNotify = 3"
  by (simp add: wire_defs scroll_up_def click_def mouse_move_def mouse_down_def mouse_up_def send_event_def
      make_event_def fits_card8_def fits_int16_def fits_card16_def sleep_def
      MOUSE_SCROLL_UP_def X_NotifyNormal_def sent_events_append numeral_2_eq_2)

section \<open>The event record\<close>

text \<open>
  C6, as the code has it. A call of \<open>send_event\<close> whose detail fits an unsigned 8-bit field,
  whose x and y fit signed 16-bit fields and whose modifier mask fits an unsigned 16-bit field
  hands the window exactly one event and then flushes; the event's modifier state is the
  caller's mask, its same-screen flag is 1, its window-relative coordinates are the supplied
  x and y, and its root-relative coordinates are 0 (class, type code, detail and window are
  the supplied ones). For any other call no record is constructed: the constructor raises
  \<^verbatim>\<open>struct.error\<close> and nothing is sent.
\<close>

theorem send_event_record:
  "(0 \<le> keycode \<and> keycode \<le> 255 \<and> - 32768 \<le> x \<and> x \<le> 32767 \<and> - 32768 \<le> y \<and> y \<le> 32767 \<and>
    0 \<le> modifiers \<and> modifiers \<le> 65535 \<longrightarrow>
      (\<exists>e. send_event w cls ty keycode x y modifiers s = (Inr (), s @ [SendEvent w e, Flush w]) \<and>
           state e = modifiers \<and> same_screen e = 1 \<and>
           event_x e = x \<and> event_y e = y \<and> root_x e = 0 \<and> root_y e = 0 \<and>
           ev_class e = cls \<and> ev_type e = ty \<and> detail e = keycode \<and> ev_window e = w)) \<and>
   (keycode < 0 \<or> 255 < keycode \<or> x < - 32768 \<or> 32767 < x \<or> y < - 32768 \<or> 32767 < y \<or>
    modifiers < 0 \<or> 65535 < modifiers \<longrightarrow>
      send_event w cls ty keycode x y modifiers s = (Inl StructError, s))"
  by (auto simp: wire_defs send_event_def make_event_def fits_card8_def fits_int16_def fits_card16_def)

theorem send_event_record_witness:
  "send_event 7 KeyPress X_KeyPress 38 3 4 5 [] =
     (Inr (),
      [SendEvent 7 \<lparr> ev_class = KeyPress, ev_type = X_KeyPress, detail = 38, time = 0, root = 0,
          ev_window = 7, child = 0, root_x = 0, root_y = 0, event_x = 3, event_y = 4,
          state = 5, same_screen = 1 \<rparr>, Flush 7]) \<and>
   send_event 7 KeyPress X_KeyPress 38 3 4 (- 1) [] = (Inl StructError, [])"
proof -
  have run: "send_event 7 KeyPress X_KeyPress 38 3 4 5 [] =
     (Inr (),
      [SendEvent 7 \<lparr> ev_class = KeyPress, ev_type = X_KeyPress, detail = 38, time = 0, root = 0,
          ev_window = 7, child = 0, root_x = 0, root_y = 0, event_x = 3, event_y = 4,
          state = 5, same_screen = 1 \<rparr>, Flush 7])"
    by (simp add: run_defs)
  show ?thesis
    using run send_event_record [of 38 3 4 5 7 KeyPress X_KeyPress "[]"]
      send_event_record [of 38 3 4 "- 1" 7 KeyPress X_KeyPress "[]"]
    by simp
qed

text \<open>
  C6 as the specification words it (for every call) fails: with the modifier mask 65536 no
  event record is constructed and nothing is sent.
\<close>

theorem send_event_counterexample:
  "send_event 7 KeyPress X_KeyPress 38 0 0 65536 [] = (Inl StructError, []) \<and>
   make_event 7 KeyPress X_KeyPress 38 0 0 65536 = Inl StructError"
  by (simp add: wire_defs send_event_def make_event_def fits_card8_def fits_int16_def fits_card16_def)

lemma get_key_code_eq:
  "get_key_code env character =
     (if resolves env character then Inr (key_code_of env character)
      else Inl (Exception (''NoSymbol found for character: '' @ convert_name character)))"
  by (simp add: get_key_code_def resolves_def key_code_of_def Let_def)

lemma key_code_fits: "fits_card8 (key_code_of env character)"
proof -
  have "uint (keysym_to_keycode env (string_to_keysym env (convert_name character))) < 2 ^ 8"
    using uint_lt2p [of "keysym_to_keycode env (string_to_keysym env (convert_name character))"]
    by simp
  then show ?thesis
    by (simp add: fits_card8_def key_code_of_def)
qed

lemma get_key_code_fits: "get_key_code env character = Inr code \<Longrightarrow> fits_card8 code"
  using key_code_fits [of env character]
  by (auto simp: get_key_code_eq split: if_splits)


lemma parse_parts_fits:
  assumes "parse_parts env parts primaries mods = Inr (ps, ms)"
    and "list_all fits_card8 primaries" and "list_all fits_card8 mods"
  shows "list_all fits_card8 ps \<and> list_all fits_card8 ms"
  using assms
proof (induction parts arbitrary: primaries mods)
  case Nil
  then show ?case by simp
next
  case (Cons part parts)
  show ?case
  proof (cases "part \<in> {''alt'', ''control'', ''shift''}")
    case True
    with Cons.prems(1) obtain code where
      c: "get_key_code env (capitalize part @ ''_L'') = Inr code"
      and r: "parse_parts env parts primaries (mods @ [code]) = Inr (ps, ms)"
      by (auto split: sum.splits)
    have "list_all fits_card8 (mods @ [code])"
      using Cons.prems(3) get_key_code_fits [OF c] by simp
    from Cons.IH [OF r Cons.prems(2) this] show ?thesis .
  next
    case False
    with Cons.prems(1) obtain code where
      c: "get_key_code env part = Inr code"
      and r: "parse_parts env parts (primaries @ [code]) mods = Inr (ps, ms)"
      by (auto split: sum.splits)
    have "list_all fits_card8 (primaries @ [code])"
      using Cons.prems(2) get_key_code_fits [OF c] by simp
    from Cons.IH [OF r this Cons.prems(3)] show ?thesis .
  qed
qed

lemma parse_key_string_fits:
  assumes "parse_key_string env key = Inr (ps, ms)"
  shows "list_all fits_card8 ps \<and> list_all fits_card8 ms"
proof (cases "CHR ''+'' \<notin> set key \<or> key = ''+''")
  case True
  with assms obtain code where "get_key_code env key = Inr code" and "ps = [code]" and "ms = []"
    by (auto simp: parse_key_string_def split: sum.splits)
  then show ?thesis using get_key_code_fits by simp
next
  case False
  with assms have "parse_parts env (split CHR ''+'' key) [] [] = Inr (ps, ms)"
    by (simp add: parse_key_string_def)
  from parse_parts_fits [OF this] show ?thesis by simp
qed

lemma hold_down_trace:
  assumes "list_all fits_card8 mods" and "fits_card16 modifiers"
  shows "hold_down w mods modifiers s =
     (Inr (), s @ concat (map (\<lambda>keycode. [SendEvent w (key_press_record w keycode modifiers),
                                           Flush w, Sleep KEY_EVENT_INTERVAL]) mods))"
  using assms(1)
  by (induction mods arbitrary: s)
     (simp_all add: key_press_def send_event_sends assms(2) sleep_def)

lemma release_all_trace:
  assumes "list_all fits_card8 mods" and "fits_card16 modifiers"
  shows "release_all w mods modifiers s =
     (Inr (), s @ concat (map (\<lambda>keycode. [SendEvent w (key_release_record w keycode modifiers),
                                           Flush w, Sleep KEY_EVENT_INTERVAL]) mods))"
  using assms(1)
  by (induction mods arbitrary: s)
     (simp_all add: key_release_def send_event_sends assms(2) sleep_def)

lemma press_primaries_trace:
  assumes "list_all fits_card8 primaries" and "fits_card16 modifiers"
  shows "press_primaries w primaries modifiers s =
     (Inr (), s @ concat (map (\<lambda>keycode. [SendEvent w (key_press_record w keycode modifiers),
                                           Flush w, Sleep KEY_EVENT_INTERVAL,
                                           SendEvent w (key_release_record w keycode modifiers),
                                           Flush w, Sleep KEY_EVENT_INTERVAL]) primaries))"
  using assms(1)
  by (induction primaries arbitrary: s)
     (simp_all add: key_press_def key_release_def send_event_sends assms(2) sleep_def)

lemma press_repeat_trace:
  assumes "list_all fits_card8 primaries" and "fits_card16 modifiers"
  shows "press_repeat n w primaries modifiers s =
     (Inr (), s @ concat (replicate n
        (concat (map (\<lambda>keycode. [SendEvent w (key_press_record w keycode modifiers),
                                  Flush w, Sleep KEY_EVENT_INTERVAL,
                                  SendEvent w (key_release_record w keycode modifiers),
                                  Flush w, Sleep KEY_EVENT_INTERVAL]) primaries))))"
  by (induction n arbitrary: s) (simp_all add: press_primaries_trace [OF assms])

lemma send_key_parsed:
  assumes "parse_key_string env key = Inr (primaries, mods)" and "fits_card16 modifiers"
  shows "send_key env w key repeat modifiers s =
     (Inr (),
      s @ concat (map (\<lambda>keycode. [SendEvent w (key_press_record w keycode modifiers),
                                   Flush w, Sleep KEY_EVENT_INTERVAL]) mods)
        @ concat (replicate (nat repeat)
            (concat (map (\<lambda>keycode. [SendEvent w (key_press_record w keycode modifiers),
                                      Flush w, Sleep KEY_EVENT_INTERVAL,
                                      SendEvent w (key_release_record w keycode modifiers),
                                      Flush w, Sleep KEY_EVENT_INTERVAL]) primaries)))
        @ concat (map (\<lambda>keycode. [SendEvent w (key_release_record w keycode modifiers),
                                   Flush w, Sleep KEY_EVENT_INTERVAL]) (rev mods)))"
proof -
  from parse_key_string_fits [OF assms(1)]
  have p: "list_all fits_card8 primaries" and m: "list_all fits_card8 mods"
    by simp_all
  have rm: "list_all fits_card8 (rev mods)"
    using m by (simp add: list_all_iff)
  show ?thesis
    by (simp add: send_key_def assms(1) hold_down_trace [OF m assms(2)]
        press_repeat_trace [OF p assms(2)] release_all_trace [OF rm assms(2)])
qed




lemma parse_shift_a:
  assumes "resolves env ''Shift_L''" and "resolves env ''a''"
  shows "parse_key_string env ''shift+a'' = Inr ([key_code_of env ''a''], [key_code_of env ''Shift_L''])"
  using assms
  by (simp add: parse_key_string_def get_key_code_eq upper_chr_def lower_chr_def)

lemma count_list_pairs:
  "e \<noteq> p \<Longrightarrow> e \<noteq> r \<Longrightarrow> count_list (concat (replicate n [p, r])) e = 0"
  by (induction n) simp_all

section \<open>Sending keys\<close>

text \<open>
  C2. Where the names \<^verbatim>\<open>Shift_L\<close> and \<^verbatim>\<open>a\<close> have keysyms (as they do in python-xlib's
  table), \<open>send_key(window, "shift+a", repeat)\<close>, with the default modifier mask 0 or any other
  mask that fits its 16-bit field, does not raise and issues, after whatever was sent before:
  a press of the shift key code, then \<open>repeat\<close> consecutive press/release pairs of the key code
  of \<^verbatim>\<open>a\<close>, then a release of the shift key code. Where the two key codes differ, the shift
  key is pressed exactly once and released exactly once.
\<close>

theorem send_key_shift_a:
  assumes "string_to_keysym env ''Shift_L'' \<noteq> 0" and "string_to_keysym env ''a'' \<noteq> 0"
    and "0 \<le> modifiers" and "modifiers \<le> 65535"
  shows "(let shift = uint (keysym_to_keycode env (string_to_keysym env ''Shift_L''));
              a = uint (keysym_to_keycode env (string_to_keysym env ''a''));
              issued = [key_press_event w shift modifiers]
                       @ concat (replicate (nat repeat)
                           [key_press_event w a modifiers, key_release_event w a modifiers])
                       @ [key_release_event w shift modifiers]
          in fst (send_key env w ''shift+a'' repeat modifiers s) = Inr () \<and>
             sent_events (snd (send_key env w ''shift+a'' repeat modifiers s)) =
               sent_events s @ issued \<and>
             (shift \<noteq> a \<longrightarrow>
                count_list issued (key_press_event w shift modifiers) = 1 \<and>
                count_list issued (key_release_event w shift modifiers) = 1))"
proof -
  have rs: "resolves env ''Shift_L''" and ra: "resolves env ''a''"
    using assms by (simp_all add: wire_defs resolves_def convert_name_def)
  have codes: "key_code_of env ''Shift_L'' = uint (keysym_to_keycode env (string_to_keysym env ''Shift_L''))"
    "key_code_of env ''a'' = uint (keysym_to_keycode env (string_to_keysym env ''a''))"
    by (simp_all add: wire_defs key_code_of_def convert_name_def)
  have m: "fits_card16 modifiers"
    using assms by (simp add: wire_defs fits_card16_def)
  note p = parse_shift_a [OF rs ra]
  show ?thesis
    by (simp add: wire_defs Let_def send_key_parsed [OF p m] codes count_list_pairs sent_events_append
        sent_events_replicate)
qed

theorem send_key_shift_a_witness:
  "string_to_keysym sample_env ''Shift_L'' \<noteq> 0 \<and> string_to_keysym sample_env ''a'' \<noteq> 0 \<and>
   fst (send_key sample_env 7 ''shift+a'' 3 0 []) = Inr () \<and>
   map ev_class (sent_events (snd (send_key sample_env 7 ''shift+a'' 3 0 []))) =
     [KeyPress, KeyPress, KeyRelease, KeyPress, KeyRelease, KeyPress, KeyRelease, KeyRelease] \<and>
   map detail (sent_events (snd (send_key sample_env 7 ''shift+a'' 3 0 []))) =
     [50, 38, 38, 38, 38, 38, 38, 50] \<and>
   count_list (sent_events (snd (send_key sample_env 7 ''shift+a'' 3 0 [])))
     (key_press_event 7 50 0) = 1 \<and>
   count_list (sent_events (snd (send_key sample_env 7 ''shift+a'' 3 0 [])))
     (key_release_event 7 50 0) = 1 \<and>
   send_key sample_env 7 ''shift+a'' 1 0 [] =
     (Inr (),
      [SendEvent 7 (key_press_event 7 50 0), Flush 7, Sleep 24,
       SendEvent 7 (key_press_event 7 38 0), Flush 7, Sleep 24,
       SendEvent 7 (key_release_event 7 38 0), Flush 7, Sleep 24,
       SendEvent 7 (key_release_event 7 50 0), Flush 7, Sleep 24])"
proof -
  have h1: "string_to_keysym sample_env ''Shift_L'' \<noteq> 0"
    by (simp add: sample_env_def sample_keysyms_def)
  have h2: "string_to_keysym sample_env ''a'' \<noteq> 0"
    by (simp add: sample_env_def sample_keysyms_def)
  have h3: "(0::int) \<le> 0" and h4: "(0::int) \<le> 65535"
    by simp_all
  have run: "send_key sample_env 7 ''shift+a'' 1 0 [] =
     (Inr (),
      [SendEvent 7 (key_press_event 7 50 0), Flush 7, Sleep 24,
       SendEvent 7 (key_press_event 7 38 0), Flush 7, Sleep 24,
       SendEvent 7 (key_release_event 7 38 0), Flush 7, Sleep 24,
       SendEvent 7 (key_release_event 7 50 0), Flush 7, Sleep 24])"
    by (simp add: send_key_def parse_key_string_def upper_chr_def lower_chr_def Let_def
        sample_defs run_defs)
  show ?thesis
    using h1 h2 run send_key_shift_a [OF h1 h2 h3 h4, where w = 7 and repeat = 3 and s = "[]"]
    by (simp add: Let_def sample_env_def sample_keysyms_def sample_keycodes_def numeral_3_eq_3)
qed





section \<open>Parsing a key string: the two lists\<close>



section \<open>The key-hold scope\<close>

text \<open>
  C4. For every window and every key name that resolves, \<^verbatim>\<open>with KeyPressed(window, key): body\<close>
  presses the resolved key code, runs the body, and then issues exactly one event more, as the
  last event of the statement: a key release (class \<^verbatim>\<open>KeyRelease\<close>, type \<^verbatim>\<open>X.KeyRelease\<close>)
  whose detail is the resolved key code, on that window. This holds whatever the body did:
  the outcome of the whole statement is the body's own outcome, a returned value or a raised
  exception alike.
\<close>

theorem KeyPressed_releases_on_exit:
  assumes "string_to_keysym env (convert_name key) \<noteq> 0"
  shows "(let code = uint (keysym_to_keycode env (string_to_keysym env (convert_name key)));
              entered = s @ [SendEvent w (key_press_event w code 0), Flush w];
              outcome = fst (body entered);
              after_body = snd (body entered)
          in get_key_code env key = Inr code \<and>
             hold_key env w key body s =
               (outcome, after_body @ [SendEvent w (key_release_event w code 0), Flush w]) \<and>
             sent_events (snd (hold_key env w key body s)) =
               sent_events after_body @ [key_release_event w code 0])"
proof -
  let ?code = "uint (keysym_to_keycode env (string_to_keysym env (convert_name key)))"
  have "?code < 2 ^ 8"
    using uint_lt2p [of "keysym_to_keycode env (string_to_keysym env (convert_name key))"]
    by simp
  then have range: "0 \<le> ?code" "?code \<le> 255"
    by simp_all
  have resolved: "get_key_code env key = Inr ?code"
    using assms by (simp add: get_key_code_def Let_def)
  show ?thesis
    using range
    by (simp add: Let_def resolved hold_key_def KeyPressed_init_def with_KeyPressed_def
        KeyPressed_enter_def KeyPressed_exit_def key_press_def key_release_def send_event_def
        make_event_def fits_card8_def fits_int16_def fits_card16_def wire_defs and_then_def
        split_beta sent_events_append)
qed

theorem KeyPressed_releases_on_exit_witness:
  "string_to_keysym sample_env (convert_name ''a'') \<noteq> 0 \<and>
   get_key_code sample_env ''a'' = Inr 38 \<and>
   fst (hold_key sample_env 7 ''a'' (\<lambda>s. (Inl (Exception ''boom'') :: error + unit, s)) []) =
     Inl (Exception ''boom'') \<and>
   map ev_class (sent_events
       (snd (hold_key sample_env 7 ''a'' (\<lambda>s. (Inl (Exception ''boom'') :: error + unit, s)) []))) =
     [KeyPress, KeyRelease] \<and>
   map detail (sent_events
       (snd (hold_key sample_env 7 ''a'' (\<lambda>s. (Inl (Exception ''boom'') :: error + unit, s)) []))) =
     [38, 38] \<and>
   hold_key sample_env 7 ''a'' (\<lambda>s. (Inr (5::int), sleep 10 s)) [] =
     (Inr 5,
      [SendEvent 7 \<lparr> ev_class = KeyPress, ev_type = X_KeyPress, detail = 38, time = 0, root = 0,
          ev_window = 7, child = 0, root_x = 0, root_y = 0, event_x = 0, event_y = 0,
          state = 0, same_screen = 1 \<rparr>, Flush 7,
       Sleep 10,
       SendEvent 7 \<lparr> ev_class = KeyRelease, ev_type = X_KeyRelease, detail = 38, time = 0, root = 0,
          ev_window = 7, child = 0, root_x = 0, root_y = 0, event_x = 0, event_y = 0,
          state = 0, same_screen = 1 \<rparr>, Flush 7])"
proof -
  have r: "string_to_keysym sample_env (convert_name ''a'') \<noteq> 0"
    by (simp add: convert_name_def sample_env_def sample_keysyms_def)
  have c: "uint (keysym_to_keycode sample_env (string_to_keysym sample_env (convert_name ''a''))) = 38"
    by (simp add: convert_name_def sample_env_def sample_keysyms_def sample_keycodes_def)
  have run: "hold_key sample_env 7 ''a'' (\<lambda>s. (Inr (5::int), sleep 10 s)) [] =
     (Inr 5,
      [SendEvent 7 (key_press_event 7 38 0), Flush 7, Sleep 10,
       SendEvent 7 (key_release_event 7 38 0), Flush 7])"
    by (simp add: hold_key_def KeyPressed_init_def with_KeyPressed_def KeyPressed_enter_def
        KeyPressed_exit_def Let_def sample_defs run_defs)
  have raised: "hold_key sample_env 7 ''a'' (\<lambda>s. (Inl (Exception ''boom'') :: error + unit, s)) [] =
     (Inl (Exception ''boom''),
      [SendEvent 7 (key_press_event 7 38 0), Flush 7,
       SendEvent 7 (key_release_event 7 38 0), Flush 7])"
    by (simp add: hold_key_def KeyPressed_init_def with_KeyPressed_def KeyPressed_enter_def
        KeyPressed_exit_def Let_def sample_defs run_defs)
  show ?thesis
    using r run raised
      KeyPressed_releases_on_exit [OF r, where w = 7 and s = "[]"
        and body = "\<lambda>s. (Inl (Exception ''boom'') :: error + unit, s)"]
      KeyPressed_releases_on_exit [OF r, where w = 7 and s = "[]"
        and body = "\<lambda>s. (Inr (5::int), sleep 10 s)"]
    by (simp add: Let_def c)
qed

text \<open>
  C5, as the code has it. The key name is resolved when the \<open>KeyPressed\<close> object is constructed
  (\<^verbatim>\<open>__init__\<close>), before the scope is entered: construction stores the resolved key code or
  raises. Entering (\<^verbatim>\<open>__enter__\<close>) resolves nothing; it issues the press of the stored key
  code, which for a constructed object is a key code of the display and fits its field.
  No event is issued before entry: when construction raises, the trace is unchanged.
\<close>

theorem KeyPressed_resolves_at_construction:
  "KeyPressed_init env w key =
     (if string_to_keysym env (convert_name key) = 0
      then Inl (Exception (''NoSymbol found for character: '' @ convert_name key))
      else Inr \<lparr> kp_window = w,
                 kp_code = uint (keysym_to_keycode env (string_to_keysym env (convert_name key))) \<rparr>) \<and>
   (0 \<le> kp_code mgr \<and> kp_code mgr \<le> 255 \<longrightarrow>
      KeyPressed_enter mgr s =
        (Inr (), s @ [SendEvent (kp_window mgr) (key_press_event (kp_window mgr) (kp_code mgr) 0),
                      Flush (kp_window mgr)])) \<and>
   (KeyPressed_init env w key = Inr mgr \<longrightarrow>
      kp_window mgr = w \<and> 0 \<le> kp_code mgr \<and> kp_code mgr \<le> 255) \<and>
   (string_to_keysym env (convert_name key) = 0 \<longrightarrow>
      hold_key env w key body s =
        (Inl (Exception (''NoSymbol found for character: '' @ convert_name key)), s))"
proof (intro conjI impI)
  show "KeyPressed_init env w key =
     (if string_to_keysym env (convert_name key) = 0
      then Inl (Exception (''NoSymbol found for character: '' @ convert_name key))
      else Inr \<lparr> kp_window = w,
                 kp_code = uint (keysym_to_keycode env (string_to_keysym env (convert_name key))) \<rparr>)"
    by (simp add: wire_defs KeyPressed_init_def get_key_code_def Let_def)
next
  assume "0 \<le> kp_code mgr \<and> kp_code mgr \<le> 255"
  then have "fits_card8 (kp_code mgr)"
    by (simp add: wire_defs fits_card8_def)
  then show "KeyPressed_enter mgr s =
        (Inr (), s @ [SendEvent (kp_window mgr) (key_press_event (kp_window mgr) (kp_code mgr) 0),
                      Flush (kp_window mgr)])"
    by (simp add: wire_defs KeyPressed_enter_def key_press_def send_event_sends)
next
  assume i: "KeyPressed_init env w key = Inr mgr"
  then obtain code where c: "get_key_code env key = Inr code"
    and m: "mgr = \<lparr> kp_window = w, kp_code = code \<rparr>"
    by (auto simp: wire_defs KeyPressed_init_def split: sum.splits)
  have built: "kp_window mgr = w \<and> 0 \<le> kp_code mgr \<and> kp_code mgr \<le> 255"
    using get_key_code_fits [OF c] by (simp add: wire_defs m fits_card8_def)
  from built show "kp_window mgr = w" by simp
  from built show "0 \<le> kp_code mgr" by simp
  from built show "kp_code mgr \<le> 255" by simp
next
  assume "string_to_keysym env (convert_name key) = 0"
  then show "hold_key env w key body s =
        (Inl (Exception (''NoSymbol found for character: '' @ convert_name key)), s)"
    by (simp add: wire_defs hold_key_def KeyPressed_init_def get_key_code_def Let_def)
qed

theorem KeyPressed_resolves_at_construction_witness:
  "KeyPressed_init sample_env 7 ''Enter'' = Inr \<lparr> kp_window = 7, kp_code = 36 \<rparr> \<and>
   KeyPressed_enter \<lparr> kp_window = 7, kp_code = 36 \<rparr> [] =
     (Inr (),
      [SendEvent 7 \<lparr> ev_class = KeyPress, ev_type = X_KeyPress, detail = 36, time = 0, root = 0,
          ev_window = 7, child = 0, root_x = 0, root_y = 0, event_x = 0, event_y = 0,
          state = 0, same_screen = 1 \<rparr>, Flush 7]) \<and>
   string_to_keysym sample_env (convert_name ''zz'') = 0 \<and>
   hold_key sample_env 7 ''zz'' (\<lambda>s. (Inr (), sleep 10 s)) [] =
     (Inl (Exception ''NoSymbol found for character: zz''), [])"
proof -
  have run: "KeyPressed_init sample_env 7 ''Enter'' = Inr \<lparr> kp_window = 7, kp_code = 36 \<rparr>"
    "KeyPressed_enter \<lparr> kp_window = 7, kp_code = 36 \<rparr> [] =
       (Inr (), [SendEvent 7 (key_press_event 7 36 0), Flush 7])"
    by (simp_all add: KeyPressed_init_def KeyPressed_enter_def Let_def sample_defs run_defs)
  show ?thesis
    using run
      KeyPressed_resolves_at_construction [where env = sample_env and w = 7
        and key = "''Enter''" and mgr = "\<lparr> kp_window = 7, kp_code = 36 \<rparr>" and s = "[]"]
      KeyPressed_resolves_at_construction [where env = sample_env and w = 7 and key = "''zz''"
        and s = "[]" and body = "\<lambda>s. (Inr (), sleep 10 s)"]
    by (simp add: convert_name_def sample_env_def sample_keysyms_def sample_keycodes_def)
qed

text \<open>
  C5 as the specification words it (no resolution before the scope is entered) fails:
  constructing the object, without entering it, already raises for an unknown name and already
  holds the key code of a known one.
\<close>

theorem KeyPressed_init_counterexample:
  "KeyPressed_init sample_env 7 ''zz'' = Inl (Exception ''NoSymbol found for character: zz'') \<and>
   KeyPressed_init sample_env 7 ''a'' = Inr \<lparr> kp_window = 7, kp_code = 38 \<rparr>"
  by (simp add: KeyPressed_init_def get_key_code_def Let_def convert_name_def sample_env_def
      sample_keysyms_def sample_keycodes_def)

section \<open>Resolving a key name\<close>

text \<open>
  C8, as the code has it. \<open>get_key_code\<close> first converts \<^verbatim>\<open>Ctrl\<close> to \<^verbatim>\<open>Control\<close> and
  \<^verbatim>\<open>Enter\<close> to \<^verbatim>\<open>Return\<close> and leaves every other name as it is. It raises exactly when the
  keysym lookup of the converted name returns 0, and the message then contains the converted
  name; otherwise it returns the key code of the keysym of the converted name.
\<close>

theorem get_key_code_converted_name:
  "(string_to_keysym env (convert_name character) = 0 \<longrightarrow>
      (\<exists>message. get_key_code env character = Inl (Exception message) \<and>
                 sublist (convert_name character) message)) \<and>
   (string_to_keysym env (convert_name character) \<noteq> 0 \<longrightarrow>
      get_key_code env character =
        Inr (uint (keysym_to_keycode env (string_to_keysym env (convert_name character))))) \<and>
   (character \<noteq> ''Ctrl'' \<and> character \<noteq> ''Enter'' \<longrightarrow> convert_name character = character) \<and>
   convert_name ''Ctrl'' = ''Control'' \<and> convert_name ''Enter'' = ''Return''"
proof -
  have contained: "sublist name (prefix @ name)" for name prefix :: string
    by (rule sublist_append_leftI)
  have raised: "string_to_keysym env (convert_name character) = 0 \<longrightarrow>
      (\<exists>message. get_key_code env character = Inl (Exception message) \<and>
                 sublist (convert_name character) message)"
    using contained [of "convert_name character" "''NoSymbol found for character: ''"]
    by (simp add: get_key_code_def Let_def)
  have returned: "string_to_keysym env (convert_name character) \<noteq> 0 \<longrightarrow>
      get_key_code env character =
        Inr (uint (keysym_to_keycode env (string_to_keysym env (convert_name character))))"
    by (simp add: get_key_code_def Let_def)
  have names: "(character \<noteq> ''Ctrl'' \<and> character \<noteq> ''Enter'' \<longrightarrow> convert_name character = character) \<and>
      convert_name ''Ctrl'' = ''Control'' \<and> convert_name ''Enter'' = ''Return''"
    by (simp add: convert_name_def)
  from raised returned names show ?thesis by blast
qed

theorem get_key_code_converted_name_witness:
  "get_key_code sample_env ''zz'' = Inl (Exception ''NoSymbol found for character: zz'') \<and>
   get_key_code sample_env ''a'' = Inr 38 \<and>
   get_key_code sample_env ''Enter'' = Inr 36"
proof -
  have run: "get_key_code sample_env ''Enter'' = Inr 36"
    by (simp add: Let_def sample_defs)
  show ?thesis
    using run get_key_code_converted_name [of sample_env "''zz''"]
      get_key_code_converted_name [of sample_env "''a''"]
      get_key_code_converted_name [of sample_env "''Enter''"]
    by (simp add: Let_def sample_defs)
qed

text \<open>
  C8 as the specification words it fails on the two converted names. \<open>get_key_code('Ctrl')\<close>
  raises with a message that names \<^verbatim>\<open>Control\<close> and does not contain \<^verbatim>\<open>Ctrl\<close>; and
  \<^verbatim>\<open>Enter\<close>, which has no keysym of its own, does not raise.
\<close>

theorem get_key_code_counterexample:
  "get_key_code sample_env ''Ctrl'' = Inl (Exception ''NoSymbol found for character: Control'') \<and>
   \<not> sublist ''Ctrl'' ''NoSymbol found for character: Control'' \<and>
   string_to_keysym sample_env ''Enter'' = 0 \<and>
   get_key_code sample_env ''Enter'' = Inr 36"
  by (simp add: get_key_code_def Let_def convert_name_def sample_env_def sample_keysyms_def
      sample_keycodes_def sublist_Cons_right)

section \<open>The process id of a window: what is returned\<close>

text \<open>
  C9, as the code has it. \<open>get_window_pid\<close> returns the first element of the property value
  exactly for a window that carries \<^verbatim>\<open>_NET_WM_PID\<close> as a non-empty array of integers. In
  every other case it raises instead of returning: the X error when the display has no such
  atom, AttributeError when the window does not carry the property or carries it as a byte
  string, IndexError when the window carries it with an empty value.
\<close>

theorem get_window_pid_decodes:
  "(atom_index env w ''_NET_WM_PID'' = None \<longrightarrow>
      get_window_pid env w = Inl (XError ''BadAtom'')) \<and>
   (\<forall>n. atom_index env w ''_NET_WM_PID'' = Some n \<longrightarrow>
      (window_properties env w (n + 1) = None \<longrightarrow>
         get_window_pid env w = Inl AttributeError) \<and>
      (\<forall>v vs. window_properties env w (n + 1) = Some \<lparr> prop_value = Array (v # vs) \<rparr> \<longrightarrow>
         get_window_pid env w = Inr v) \<and>
      (window_properties env w (n + 1) = Some \<lparr> prop_value = Array [] \<rparr> \<longrightarrow>
         get_window_pid env w = Inl IndexError) \<and>
      (\<forall>bs. window_properties env w (n + 1) = Some \<lparr> prop_value = Bytes bs \<rparr> \<longrightarrow>
         get_window_pid env w = Inl AttributeError))"
  by (simp add: get_window_pid_def intern_atom_def get_property_def X_NONE_def)

theorem get_window_pid_decodes_witness:
  "atom_index sample_env 7 ''_NET_WM_PID'' = Some 300 \<and>
   window_properties sample_env 7 301 = Some \<lparr> prop_value = Array [4242] \<rparr> \<and>
   get_window_pid sample_env 7 = Inr 4242 \<and>
   window_properties sample_env 8 301 = None \<and>
   get_window_pid sample_env 8 = Inl AttributeError \<and>
   atom_index sample_env 9 ''_NET_WM_PID'' = None \<and>
   get_window_pid sample_env 9 = Inl (XError ''BadAtom'') \<and>
   get_window_pid sample_env 10 = Inl IndexError \<and>
   get_window_pid sample_env 11 = Inl AttributeError"
proof -
  have run: "get_window_pid sample_env 7 = Inr 4242"
    "get_window_pid sample_env 9 = Inl (XError ''BadAtom'')"
    by (simp_all add: get_window_pid_def intern_atom_def get_property_def X_NONE_def
        sample_env_def)
  show ?thesis
    using run get_window_pid_decodes [of sample_env 7]
      get_window_pid_decodes [of sample_env 8]
      get_window_pid_decodes [of sample_env 9]
      get_window_pid_decodes [of sample_env 10]
      get_window_pid_decodes [of sample_env 11]
    by (simp add: sample_env_def)
qed

text \<open>
  C9 as the specification words it (for every window carrying the property) fails: window 10
  carries the property with an empty value and window 11 carries it as a byte string, and for
  both the call raises.
\<close>

theorem get_window_pid_counterexample:
  "window_properties sample_env 10 (intern_atom sample_env 10 ''_NET_WM_PID'' 1) =
     Some \<lparr> prop_value = Array [] \<rparr> \<and>
   get_window_pid sample_env 10 = Inl IndexError \<and>
   window_properties sample_env 11 (intern_atom sample_env 11 ''_NET_WM_PID'' 1) =
     Some \<lparr> prop_value = Bytes [52, 50] \<rparr> \<and>
   get_window_pid sample_env 11 = Inl AttributeError"
  by (simp add: get_window_pid_def intern_atom_def get_property_def X_NONE_def sample_env_def)

section \<open>Sending a sequence of keys\<close>



end
